theory Spec2Isabelle
  imports Main
begin

section \<open>Contacts and the contacts table\<close>

text \<open>
  The service of \<^verbatim>\<open>src/index.ts\<close> keeps one table, \<^verbatim>\<open>contacts\<close>
  (\<^verbatim>\<open>database.sql\<close>), and answers \<^verbatim>\<open>POST /identify\<close>. A row is the
  \<^verbatim>\<open>Contact\<close> interface; SQL \<^verbatim>\<open>NULL\<close> is \<open>None\<close>. Timestamps are natural
  numbers (a later instant is a larger number). The field \<^verbatim>\<open>id\<close> is called
  \<open>contact_id\<close> here, because \<open>id\<close> is the identity function of HOL.
\<close>

datatype precedence = primary | secondary

record contact =
  contact_id :: nat
  phoneNumber :: "string option"
  email :: "string option"
  linkedId :: "nat option"
  linkPrecedence :: precedence
  createdAt :: nat
  updatedAt :: nat
  deletedAt :: "nat option"

text \<open>
  The database as the service sees it between two requests: the committed rows, in the
  order of their insertion, and the last value issued by the sequence behind
  \<^verbatim>\<open>id SERIAL\<close>.
\<close>

record db =
  rows :: "contact list"
  seq :: nat

text \<open>
  A JavaScript value read from a row object: \<^verbatim>\<open>undefined\<close> when the object has no
  such property, \<^verbatim>\<open>null\<close>, a string or a number.
\<close>

datatype js_value = Undefined | Null | Str string | Num nat

text \<open>
  The body of a successful answer (\<^verbatim>\<open>IdentifyResponse.contact\<close>). The interface
  declares \<^verbatim>\<open>phoneNumbers: string[]\<close>, but at run time the list can hold
  \<^verbatim>\<open>undefined\<close>, which \<^verbatim>\<open>res.json\<close> prints as \<^verbatim>\<open>null\<close>.
\<close>

record consolidated =
  primaryContactId :: nat
  emails :: "string list"
  phoneNumbers :: "js_value list"
  secondaryContactIds :: "nat list"

text \<open>
  Taking a connection from the pool and every statement sent to the database may raise
  (connection lost, a value longer than its \<^verbatim>\<open>VARCHAR\<close> column, ...). Which of
  them raise is a parameter of the model.
\<close>

datatype stmt = Connect | Begin | Search | Insert | GetLinked | Commit | Rollback

datatype error = DbError stmt

type_synonym faults = "stmt \<Rightarrow> bool"

definition no_faults :: faults where
  "no_faults st = False"

datatype http_response = Status400 | Status200 consolidated | Status500 error

section \<open>JavaScript values\<close>

text \<open>
  \<^verbatim>\<open>email?: string\<close> and \<^verbatim>\<open>phoneNumber?: number\<close> are optional: \<open>None\<close> is
  \<^verbatim>\<open>undefined\<close>. A string is truthy when it is not empty, a number when it is not
  zero. A JavaScript number is a double. The phone numbers of the model are the integers
  a double holds exactly and prints digit by digit, those of absolute value at most
  \<^verbatim>\<open>2^53\<close>; \<^verbatim>\<open>Number.prototype.toString\<close> prints them in decimal, with a minus
  sign when negative. Larger numbers, fractions and strings sent in place of a number are
  not represented.
\<close>

definition truthy_string :: "string option \<Rightarrow> bool" where
  "truthy_string e = (case e of None \<Rightarrow> False | Some s \<Rightarrow> s \<noteq> [])"

definition truthy_number :: "int option \<Rightarrow> bool" where
  "truthy_number p = (case p of None \<Rightarrow> False | Some n \<Rightarrow> n \<noteq> 0)"

fun digits :: "nat \<Rightarrow> string" where
  "digits n =
     (if n < 10 then [''0123456789'' ! n]
      else digits (n div 10) @ [''0123456789'' ! (n mod 10)])"

declare digits.simps [simp del]

definition toString :: "int \<Rightarrow> string" where
  "toString n = (if n < 0 then CHR ''-'' # digits (nat (- n)) else digits (nat n))"

text \<open>\<^verbatim>\<open>x || null\<close> for a string: the string when it is truthy, else \<^verbatim>\<open>null\<close>.\<close>

definition or_null :: "string option \<Rightarrow> string option" where
  "or_null e = (if truthy_string e then e else None)"

text \<open>\<^verbatim>\<open>phoneNumber?.toString() || null\<close>, the parameter of both queries and inserts.\<close>

definition phone_param :: "int option \<Rightarrow> string option" where
  "phone_param p = or_null (map_option toString p)"

text \<open>
  \<^verbatim>\<open>c.email === email\<close>: a column value (a string or \<^verbatim>\<open>null\<close>) against a
  JavaScript value (a string or \<^verbatim>\<open>undefined\<close>).
\<close>

definition strict_eq :: "string option \<Rightarrow> string option \<Rightarrow> bool" where
  "strict_eq col v = (case v of None \<Rightarrow> False | Some s \<Rightarrow> col = Some s)"

text \<open>
  \<^verbatim>\<open>[...new Set(xs)]\<close>: a \<^verbatim>\<open>Set\<close> keeps its elements in the order of their
  first insertion.
\<close>

definition set_add :: "'a list \<Rightarrow> 'a \<Rightarrow> 'a list" where
  "set_add s x = (if x \<in> set s then s else s @ [x])"

definition new_Set :: "'a list \<Rightarrow> 'a list" where
  "new_Set xs = foldl set_add [] xs"

section \<open>Rows as JavaScript objects\<close>

text \<open>
  \<^verbatim>\<open>result.rows\<close> holds one object per row, keyed by the column names as the
  server reports them. \<^verbatim>\<open>database.sql\<close> and every statement of \<^verbatim>\<open>index.ts\<close>
  write the column names without quotes, and PostgreSQL folds an unquoted name to lower
  case: the phone column is \<^verbatim>\<open>phonenumber\<close>. Reading a property the object does not
  have gives \<^verbatim>\<open>undefined\<close>, so \<^verbatim>\<open>c.id\<close> and \<^verbatim>\<open>c.email\<close> are the columns,
  and \<^verbatim>\<open>c.phoneNumber\<close> is \<^verbatim>\<open>undefined\<close> on every row.
\<close>

definition nullable :: "string option \<Rightarrow> js_value" where
  "nullable v = (case v of None \<Rightarrow> Null | Some s \<Rightarrow> Str s)"

definition pg_row :: "contact \<Rightarrow> (string \<times> js_value) list" where
  "pg_row c =
     [(''id'', Num (contact_id c)),
      (''phonenumber'', nullable (phoneNumber c)),
      (''email'', nullable (email c)),
      (''linkedid'', case linkedId c of None \<Rightarrow> Null | Some n \<Rightarrow> Num n),
      (''linkprecedence'',
         Str (case linkPrecedence c of primary \<Rightarrow> ''primary'' | secondary \<Rightarrow> ''secondary'')),
      (''createdat'', Num (createdAt c)),
      (''updatedat'', Num (updatedAt c)),
      (''deletedat'', case deletedAt c of None \<Rightarrow> Null | Some t \<Rightarrow> Num t)]"

definition js_get :: "(string \<times> js_value) list \<Rightarrow> string \<Rightarrow> js_value" where
  "js_get obj k = (case map_of obj k of None \<Rightarrow> Undefined | Some v \<Rightarrow> v)"

text \<open>A variable of type \<^verbatim>\<open>string | undefined\<close> as a value.\<close>

definition js_string :: "string option \<Rightarrow> js_value" where
  "js_string v = (case v of None \<Rightarrow> Undefined | Some s \<Rightarrow> Str s)"

section \<open>SQL statements\<close>

text \<open>
  \<^verbatim>\<open>col = $1\<close> is not true when either side is \<^verbatim>\<open>NULL\<close>.
  \<^verbatim>\<open>ORDER BY createdAt ASC\<close> is a stable sort of the rows in their stored order.
\<close>

definition sql_eq :: "'a option \<Rightarrow> 'a option \<Rightarrow> bool" where
  "sql_eq col v = (case v of None \<Rightarrow> False | Some s \<Rightarrow> col = Some s)"

definition searchQuery :: "contact list \<Rightarrow> string option \<Rightarrow> string option \<Rightarrow> contact list" where
  "searchQuery tbl e p =
     sort_key createdAt
       (filter (\<lambda>c. (sql_eq (email c) e \<or> sql_eq (phoneNumber c) p) \<and> deletedAt c = None) tbl)"

definition getLinkedQuery :: "contact list \<Rightarrow> nat \<Rightarrow> contact list" where
  "getLinkedQuery tbl pid =
     sort_key createdAt
       (filter (\<lambda>c. sql_eq (linkedId c) (Some pid) \<and> deletedAt c = None) tbl)"

text \<open>
  \<^verbatim>\<open>INSERT INTO contacts (email, phoneNumber, linkedId, linkPrecedence, createdAt,
  updatedAt) VALUES (..., CURRENT_TIMESTAMP, CURRENT_TIMESTAMP) RETURNING *\<close>: the id is
  the next value of the sequence, \<^verbatim>\<open>deletedAt\<close> is \<^verbatim>\<open>NULL\<close>.
\<close>

definition insertQuery ::
  "db \<Rightarrow> string option \<Rightarrow> string option \<Rightarrow> nat option \<Rightarrow> precedence \<Rightarrow> nat \<Rightarrow> db \<times> contact" where
  "insertQuery d e p l prec now =
     (let c = \<lparr>contact_id = Suc (seq d), phoneNumber = p, email = e, linkedId = l,
                linkPrecedence = prec, createdAt = now, updatedAt = now, deletedAt = None\<rparr>
      in (\<lparr>rows = rows d @ [c], seq = Suc (seq d)\<rparr>, c))"

section \<open>identifyCustomer\<close>

text \<open>Step 1: the contacts matching the email or the phone number.\<close>

definition existingContacts :: "db \<Rightarrow> string option \<Rightarrow> int option \<Rightarrow> contact list" where
  "existingContacts d e p =
     (if truthy_string e \<or> truthy_number p
      then searchQuery (rows d) (or_null e) (phone_param p) else [])"

text \<open>Step 3: the first match and the contacts linked to it.\<close>

definition allLinkedContacts :: "db \<Rightarrow> contact \<Rightarrow> contact list" where
  "allLinkedContacts d primaryContact =
     primaryContact # getLinkedQuery (rows d) (contact_id primaryContact)"

text \<open>
  Step 4. \<^verbatim>\<open>c.email\<close> is the email column; \<^verbatim>\<open>c.phoneNumber\<close> is read from the
  row object.
\<close>

definition hasNewEmail :: "string option \<Rightarrow> contact list \<Rightarrow> bool" where
  "hasNewEmail e cs = (truthy_string e \<and> \<not> list_ex (\<lambda>c. strict_eq (email c) e) cs)"

definition hasNewPhone :: "int option \<Rightarrow> contact list \<Rightarrow> bool" where
  "hasNewPhone p cs =
     (truthy_number p \<and>
      \<not> list_ex (\<lambda>c. js_get (pg_row c) ''phoneNumber'' = js_string (map_option toString p)) cs)"

text \<open>Step 6.\<close>

definition consolidate :: "contact \<Rightarrow> contact list \<Rightarrow> consolidated" where
  "consolidate primaryContact cs =
     \<lparr>primaryContactId = contact_id primaryContact,
      emails = new_Set (List.map_filter email cs),
      phoneNumbers =
        new_Set (map (\<lambda>c. js_get (pg_row c) ''phoneNumber'')
                   (filter (\<lambda>c. js_get (pg_row c) ''phoneNumber'' \<noteq> Null) cs)),
      secondaryContactIds =
        map contact_id (filter (\<lambda>c. contact_id c \<noteq> contact_id primaryContact) cs)\<rparr>"

text \<open>The answer of step 2, built from the request and the new contact's id.\<close>

definition newCustomerView :: "contact \<Rightarrow> string option \<Rightarrow> int option \<Rightarrow> consolidated" where
  "newCustomerView newContact e p =
     \<lparr>primaryContactId = contact_id newContact,
      emails = (case e of None \<Rightarrow> [] | Some s \<Rightarrow> if s \<noteq> [] then [s] else []),
      phoneNumbers =
        (case p of None \<Rightarrow> [] | Some n \<Rightarrow> if n \<noteq> 0 then [Str (toString n)] else []),
      secondaryContactIds = []\<rparr>"

text \<open>
  The \<^verbatim>\<open>try\<close> block, at transaction time \<open>now\<close>. It returns the rows as the
  transaction sees them when it ends or raises, and the answer or the error raised.
\<close>

definition try_block ::
  "faults \<Rightarrow> nat \<Rightarrow> string option \<Rightarrow> int option \<Rightarrow> db \<Rightarrow> db \<times> (error + consolidated)" where
  "try_block f now e p d =
     (if f Begin then (d, Inl (DbError Begin))
      else if (truthy_string e \<or> truthy_number p) \<and> f Search then (d, Inl (DbError Search))
      else
        (case existingContacts d e p of
           [] \<Rightarrow>
             if f Insert then (d, Inl (DbError Insert))
             else
               (let (d1, newContact) = insertQuery d (or_null e) (phone_param p) None primary now
                in if f Commit then (d1, Inl (DbError Commit))
                   else (d1, Inr (newCustomerView newContact e p)))
         | primaryContact # _ \<Rightarrow>
             if f GetLinked then (d, Inl (DbError GetLinked))
             else
               (let cs = allLinkedContacts d primaryContact
                in if hasNewEmail e cs \<or> hasNewPhone p cs
                   then
                     if f Insert then (d, Inl (DbError Insert))
                     else
                       (let (d1, c) = insertQuery d (or_null e) (phone_param p)
                                        (Some (contact_id primaryContact)) secondary now
                        in if f Commit then (d1, Inl (DbError Commit))
                           else (d1, Inr (consolidate primaryContact (cs @ [c]))))
                   else
                     if f Commit then (d, Inl (DbError Commit))
                     else (d, Inr (consolidate primaryContact cs)))))"

text \<open>
  The whole function. \<^verbatim>\<open>pool.connect()\<close> is outside the \<^verbatim>\<open>try\<close> block: when
  it raises, nothing was sent. Otherwise \<^verbatim>\<open>COMMIT\<close> has made the transaction's rows the table's; in
  the \<^verbatim>\<open>catch\<close> block \<^verbatim>\<open>ROLLBACK\<close> discards them (the sequence is not rolled
  back) and the error is thrown again. When \<^verbatim>\<open>ROLLBACK\<close> itself raises, that error
  is the one thrown, and the server drops the transaction with the connection.
\<close>

definition identifyCustomer ::
  "faults \<Rightarrow> nat \<Rightarrow> string option \<Rightarrow> int option \<Rightarrow> db \<Rightarrow> db \<times> (error + consolidated)" where
  "identifyCustomer f now e p d =
     (if f Connect then (d, Inl (DbError Connect))
      else
        (case try_block f now e p d of
           (w, Inl err) \<Rightarrow>
             (\<lparr>rows = rows d, seq = seq w\<rparr>, Inl (if f Rollback then DbError Rollback else err))
         | (w, Inr v) \<Rightarrow> (w, Inr v)))"

text \<open>The handler of \<^verbatim>\<open>POST /identify\<close>.\<close>

definition post_identify ::
  "faults \<Rightarrow> nat \<Rightarrow> string option \<Rightarrow> int option \<Rightarrow> db \<Rightarrow> db \<times> http_response" where
  "post_identify f now e p d =
     (if \<not> truthy_string e \<and> \<not> truthy_number p then (d, Status400)
      else
        (case identifyCustomer f now e p d of
           (d', Inr v) \<Rightarrow> (d', Status200 v)
         | (d', Inl err) \<Rightarrow> (d', Status500 err)))"

section \<open>Sample states\<close>

text \<open>
  The empty table, and the table holding the two sample rows of \<^verbatim>\<open>database.sql\<close>:
  the state after \<^verbatim>\<open>{lorraine@hillvalley.edu, 123456}\<close> and then
  \<^verbatim>\<open>{mcfly@hillvalley.edu, 123456}\<close> were identified. The other contacts are the
  ones the requests of the later sections add.
\<close>

definition empty_db :: db where
  "empty_db = \<lparr>rows = [], seq = 0\<rparr>"

definition lorraine :: contact where
  "lorraine = \<lparr>contact_id = 1, phoneNumber = Some ''123456'',
     email = Some ''lorraine@hillvalley.edu'', linkedId = None, linkPrecedence = primary,
     createdAt = 100, updatedAt = 100, deletedAt = None\<rparr>"

definition mcfly :: contact where
  "mcfly = \<lparr>contact_id = 2, phoneNumber = Some ''123456'',
     email = Some ''mcfly@hillvalley.edu'', linkedId = Some 1, linkPrecedence = secondary,
     createdAt = 200, updatedAt = 200, deletedAt = None\<rparr>"

definition hill_valley :: db where
  "hill_valley = \<lparr>rows = [lorraine, mcfly], seq = 2\<rparr>"

definition lorraine_db :: db where
  "lorraine_db = \<lparr>rows = [lorraine], seq = 1\<rparr>"


definition lorraine2 :: contact where
  "lorraine2 = \<lparr>contact_id = 3, phoneNumber = Some ''555'',
     email = Some ''lorraine@hillvalley.edu'', linkedId = Some 1, linkPrecedence = secondary,
     createdAt = 300, updatedAt = 300, deletedAt = None\<rparr>"

definition hill_valley_3 :: db where
  "hill_valley_3 = \<lparr>rows = [lorraine, mcfly, lorraine2], seq = 3\<rparr>"

definition mcfly2 :: contact where
  "mcfly2 = \<lparr>contact_id = 3, phoneNumber = Some ''999'',
     email = Some ''mcfly@hillvalley.edu'', linkedId = Some 2, linkPrecedence = secondary,
     createdAt = 300, updatedAt = 300, deletedAt = None\<rparr>"

definition mcfly_again :: contact where
  "mcfly_again = \<lparr>contact_id = 3, phoneNumber = Some ''123456'',
     email = Some ''mcfly@hillvalley.edu'', linkedId = Some 1, linkPrecedence = secondary,
     createdAt = 300, updatedAt = 300, deletedAt = None\<rparr>"

definition george :: contact where
  "george = \<lparr>contact_id = 1, phoneNumber = Some ''919191'',
     email = Some ''george@hillvalley.edu'', linkedId = None, linkPrecedence = primary,
     createdAt = 100, updatedAt = 100, deletedAt = None\<rparr>"

definition biff :: contact where
  "biff = \<lparr>contact_id = 2, phoneNumber = Some ''717171'',
     email = Some ''biffsucks@hillvalley.edu'', linkedId = None, linkPrecedence = primary,
     createdAt = 200, updatedAt = 200, deletedAt = None\<rparr>"

definition biff2 :: contact where
  "biff2 = \<lparr>contact_id = 3, phoneNumber = Some ''717171'',
     email = Some ''biff@hillvalley.edu'', linkedId = Some 2, linkPrecedence = secondary,
     createdAt = 300, updatedAt = 300, deletedAt = None\<rparr>"

definition george2 :: contact where
  "george2 = \<lparr>contact_id = 4, phoneNumber = Some ''717171'',
     email = Some ''george@hillvalley.edu'', linkedId = Some 1, linkPrecedence = secondary,
     createdAt = 400, updatedAt = 400, deletedAt = None\<rparr>"

definition two_clusters :: db where
  "two_clusters = \<lparr>rows = [george, biff, biff2], seq = 3\<rparr>"

definition doc :: contact where
  "doc = \<lparr>contact_id = 1, phoneNumber = Some ''0'',
     email = Some ''doc@fluxkart.com'', linkedId = None, linkPrecedence = primary,
     createdAt = 100, updatedAt = 100, deletedAt = None\<rparr>"

definition doc3 :: contact where
  "doc3 = \<lparr>contact_id = 3, phoneNumber = Some ''0'',
     email = Some ''doc@fluxkart.com'', linkedId = None, linkPrecedence = primary,
     createdAt = 300, updatedAt = 300, deletedAt = None\<rparr>"

section \<open>The forest of contacts\<close>

text \<open>
  The shape the table is meant to keep: every secondary contact that is not deleted is
  linked to a contact whose precedence is primary.
\<close>

definition forest :: "contact list \<Rightarrow> bool" where
  "forest tbl =
     list_all (\<lambda>c. case linkPrecedence c of
                      primary \<Rightarrow> True
                    | secondary \<Rightarrow>
                        if deletedAt c = None
                        then list_ex (\<lambda>r. sql_eq (linkedId c) (Some (contact_id r)) \<and>
                                           linkPrecedence r = primary) tbl
                        else True) tbl"

section \<open>Number to string\<close>

lemma digits_nonempty: "digits n \<noteq> []"
  by (subst digits.simps) simp

lemma toString_nonempty: "toString n \<noteq> []"
  by (simp add: toString_def digits_nonempty)

section \<open>The paths of the transaction\<close>

lemma no_faults_simp [simp]: "\<not> no_faults st"
  by (simp add: no_faults_def)

lemma phone_param_Some: "phone_param (Some n) = Some (toString n)"
  by (simp add: phone_param_def or_null_def truthy_string_def toString_nonempty)

lemma phone_param_None: "phone_param None = None"
  by (simp add: phone_param_def or_null_def truthy_string_def)

lemma try_block_no_match:
  assumes "existingContacts d e p = []"
  shows "try_block no_faults now e p d =
           (fst (insertQuery d (or_null e) (phone_param p) None primary now),
            Inr (newCustomerView (snd (insertQuery d (or_null e) (phone_param p) None primary now)) e p))"
  using assms by (simp add: try_block_def split: prod.splits)

lemma try_block_new_info:
  assumes "existingContacts d e p = c # cs"
    and "hasNewEmail e (allLinkedContacts d c) \<or> hasNewPhone p (allLinkedContacts d c)"
  shows "try_block no_faults now e p d =
           (fst (insertQuery d (or_null e) (phone_param p) (Some (contact_id c)) secondary now),
            Inr (consolidate c (allLinkedContacts d c @
                  [snd (insertQuery d (or_null e) (phone_param p) (Some (contact_id c)) secondary now)])))"
  using assms by (simp add: try_block_def Let_def split: prod.splits)

lemma try_block_known:
  assumes "existingContacts d e p = c # cs"
    and "\<not> hasNewEmail e (allLinkedContacts d c)" and "\<not> hasNewPhone p (allLinkedContacts d c)"
  shows "try_block no_faults now e p d = (d, Inr (consolidate c (allLinkedContacts d c)))"
  using assms by (simp add: try_block_def Let_def split: prod.splits)

lemma try_block_rows:
  "\<exists>new. rows (fst (try_block f now e p d)) = rows d @ new \<and> length new \<le> 1"
  by (auto simp: try_block_def insertQuery_def Let_def split: list.splits prod.splits)

lemma identifyCustomer_error_rows:
  "snd (identifyCustomer f now e p d) = Inl err \<Longrightarrow> rows (fst (identifyCustomer f now e p d)) = rows d"
  by (auto simp: identifyCustomer_def split: prod.splits sum.splits)

lemma post_identify_accepted:
  "truthy_string e \<or> truthy_number p \<Longrightarrow>
   post_identify f now e p d =
     (case identifyCustomer f now e p d of
        (d', Inr v) \<Rightarrow> (d', Status200 v) | (d', Inl err) \<Rightarrow> (d', Status500 err))"
  by (auto simp: post_identify_def)

lemma hasNewEmail_iff:
  "hasNewEmail e cs \<longleftrightarrow> truthy_string e \<and> \<not> (\<exists>c\<in>set cs. email c = e)"
  by (auto simp: hasNewEmail_def list_ex_iff strict_eq_def truthy_string_def split: option.splits)

lemma insertQuery_unfold:
  "insertQuery d e p l prec now =
     (\<lparr>rows = rows d @ [\<lparr>contact_id = Suc (seq d), phoneNumber = p, email = e, linkedId = l,
                linkPrecedence = prec, createdAt = now, updatedAt = now, deletedAt = None\<rparr>],
       seq = Suc (seq d)\<rparr>,
      \<lparr>contact_id = Suc (seq d), phoneNumber = p, email = e, linkedId = l,
                linkPrecedence = prec, createdAt = now, updatedAt = now, deletedAt = None\<rparr>)"
  by (simp add: insertQuery_def Let_def)

lemma post_identify_no_match:
  assumes "truthy_string e \<or> truthy_number p" and "existingContacts d e p = []"
  shows "post_identify no_faults now e p d =
           (fst (insertQuery d (or_null e) (phone_param p) None primary now),
            Status200 (newCustomerView (snd (insertQuery d (or_null e) (phone_param p) None primary now)) e p))"
  using assms(1) try_block_no_match[OF assms(2), of now]
  by (simp add: post_identify_accepted identifyCustomer_def)

lemma post_identify_new_info:
  assumes "truthy_string e \<or> truthy_number p" and "existingContacts d e p = c # cs"
    and "hasNewEmail e (allLinkedContacts d c) \<or> hasNewPhone p (allLinkedContacts d c)"
  shows "post_identify no_faults now e p d =
           (fst (insertQuery d (or_null e) (phone_param p) (Some (contact_id c)) secondary now),
            Status200 (consolidate c (allLinkedContacts d c @
                  [snd (insertQuery d (or_null e) (phone_param p) (Some (contact_id c)) secondary now)])))"
  using assms(1) try_block_new_info[OF assms(2,3), of now]
  by (simp add: post_identify_accepted identifyCustomer_def)

lemma post_identify_known:
  assumes "truthy_string e \<or> truthy_number p" and "existingContacts d e p = c # cs"
    and "\<not> hasNewEmail e (allLinkedContacts d c)" and "\<not> hasNewPhone p (allLinkedContacts d c)"
  shows "post_identify no_faults now e p d = (d, Status200 (consolidate c (allLinkedContacts d c)))"
  using assms(1) try_block_known[OF assms(2,3,4), of now]
  by (simp add: post_identify_accepted identifyCustomer_def)

lemma try_block_rows_cases:
  "rows (fst (try_block f now e p d)) = rows d \<or>
   (\<exists>l prec. rows (fst (try_block f now e p d)) =
      rows d @ [\<lparr>contact_id = Suc (seq d), phoneNumber = phone_param p, email = or_null e,
                 linkedId = l, linkPrecedence = prec, createdAt = now, updatedAt = now,
                 deletedAt = None\<rparr>])"
  by (auto simp: try_block_def insertQuery_def Let_def split: list.splits prod.splits)

lemma post_identify_rows_cases:
  "rows (fst (post_identify f now e p d)) = rows d \<or>
   (\<exists>l prec. rows (fst (post_identify f now e p d)) =
      rows d @ [\<lparr>contact_id = Suc (seq d), phoneNumber = phone_param p, email = or_null e,
                 linkedId = l, linkPrecedence = prec, createdAt = now, updatedAt = now,
                 deletedAt = None\<rparr>])"
  using try_block_rows_cases[of f now e p d]
  by (auto simp: post_identify_def identifyCustomer_def split: prod.splits sum.splits)

lemma searchQuery_set:
  "set (searchQuery tbl e p) =
     {c \<in> set tbl. (sql_eq (email c) e \<or> sql_eq (phoneNumber c) p) \<and> deletedAt c = None}"
  by (simp add: searchQuery_def)

section \<open>Sorting and deduplication\<close>

lemma insort_key_snoc:
  "f y \<le> f x \<Longrightarrow> insort_key f y (zs @ [x]) = insort_key f y zs @ [x]"
  by (induction zs) auto

lemma foldr_insort_snoc:
  "\<forall>y\<in>set xs. f y \<le> f x \<Longrightarrow>
   foldr (insort_key f) xs [x] = foldr (insort_key f) xs [] @ [x]"
  by (induction xs) (auto simp: insort_key_snoc)

lemma sort_key_snoc:
  "\<forall>y\<in>set xs. f y \<le> f x \<Longrightarrow> sort_key f (xs @ [x]) = sort_key f xs @ [x]"
  by (simp add: sort_key_def foldr_insort_snoc)

lemma getLinkedQuery_snoc:
  assumes "\<forall>r\<in>set tbl. createdAt r \<le> createdAt n"
  shows "getLinkedQuery (tbl @ [n]) pid =
           (if linkedId n = Some pid \<and> deletedAt n = None
            then getLinkedQuery tbl pid @ [n] else getLinkedQuery tbl pid)"
  using assms by (auto simp: getLinkedQuery_def sql_eq_def intro!: sort_key_snoc)

lemma getLinkedQuery_set:
  "set (getLinkedQuery tbl pid) = {r \<in> set tbl. linkedId r = Some pid \<and> deletedAt r = None}"
  by (auto simp: getLinkedQuery_def sql_eq_def)

lemma getLinkedQuery_sorted: "sorted (map createdAt (getLinkedQuery tbl pid))"
  by (simp add: getLinkedQuery_def)

lemma foldl_set_add:
  "foldl set_add acc xs = acc @ foldl set_add [] (filter (\<lambda>y. y \<notin> set acc) xs)"
proof (induction "length xs" arbitrary: xs acc rule: less_induct)
  case less
  show ?case
  proof (cases xs)
    case Nil
    then show ?thesis by simp
  next
    case (Cons x xs')
    show ?thesis
    proof (cases "x \<in> set acc")
      case True
      then show ?thesis using less[of xs' acc] Cons by (simp add: set_add_def)
    next
      case False
      have l: "length (filter (\<lambda>y. y \<notin> set acc) xs') < length xs"
        using Cons by (simp add: le_imp_less_Suc)
      have "foldl set_add acc xs = foldl set_add (acc @ [x]) xs'"
        using False Cons by (simp add: set_add_def)
      also have "\<dots> = (acc @ [x]) @ foldl set_add [] (filter (\<lambda>y. y \<notin> set (acc @ [x])) xs')"
        using less[of xs' "acc @ [x]"] Cons by simp
      also have "filter (\<lambda>y. y \<notin> set (acc @ [x])) xs' =
                 filter (\<lambda>y. y \<notin> set [x]) (filter (\<lambda>y. y \<notin> set acc) xs')"
        by (auto intro: filter_cong)
      also have "(acc @ [x]) @ foldl set_add [] (filter (\<lambda>y. y \<notin> set [x]) (filter (\<lambda>y. y \<notin> set acc) xs'))
                 = acc @ foldl set_add [x] (filter (\<lambda>y. y \<notin> set acc) xs')"
        using less[OF l, of "[x]"] by simp
      also have "foldl set_add [x] (filter (\<lambda>y. y \<notin> set acc) xs') =
                 foldl set_add [] (filter (\<lambda>y. y \<notin> set acc) xs)"
        using False Cons by (simp add: set_add_def)
      finally show ?thesis .
    qed
  qed
qed

lemma new_Set_Nil: "new_Set [] = []"
  by (simp add: new_Set_def)

lemma new_Set_Cons: "new_Set (x # xs) = x # new_Set (filter (\<lambda>y. y \<noteq> x) xs)"
  using foldl_set_add[of "[x]" xs] by (simp add: new_Set_def set_add_def)

lemma new_Set_set_distinct: "set (new_Set xs) = set xs \<and> distinct (new_Set xs)"
proof (induction "length xs" arbitrary: xs rule: less_induct)
  case less
  show ?case
  proof (cases xs)
    case Nil
    then show ?thesis by (simp add: new_Set_Nil)
  next
    case (Cons x xs')
    have "length (filter (\<lambda>y. y \<noteq> x) xs') < length xs"
      using Cons by (simp add: le_imp_less_Suc)
    from less[OF this] show ?thesis using Cons by (auto simp: new_Set_Cons)
  qed
qed

section \<open>Reading a row object\<close>

lemma js_get_phoneNumber: "js_get (pg_row c) ''phoneNumber'' = Undefined"
  by (simp add: js_get_def pg_row_def)

lemma js_get_email: "js_get (pg_row c) ''email'' = nullable (email c)"
  by (simp add: js_get_def pg_row_def)

lemma js_get_id: "js_get (pg_row c) ''id'' = Num (contact_id c)"
  by (simp add: js_get_def pg_row_def)

lemma hasNewPhone_iff: "hasNewPhone p cs \<longleftrightarrow> truthy_number p"
  by (cases p) (simp_all add: hasNewPhone_def js_get_phoneNumber js_string_def list_ex_iff
      truthy_number_def)

lemma gathered_phoneNumbers:
  assumes "cs \<noteq> []"
  shows "new_Set (map (\<lambda>c. js_get (pg_row c) ''phoneNumber'')
           (filter (\<lambda>c. js_get (pg_row c) ''phoneNumber'' \<noteq> Null) cs)) = [Undefined]"
proof -
  obtain x xs where cs: "cs = x # xs" using assms by (cases cs) auto
  have "filter (\<lambda>y. y \<noteq> Undefined) (map (\<lambda>c. Undefined) xs) = []"
    by (induction xs) simp_all
  then show ?thesis
    by (simp add: cs js_get_phoneNumber new_Set_Cons new_Set_Nil)
qed

lemma consolidate_unfold:
  "cs \<noteq> [] \<Longrightarrow>
   consolidate c cs =
     \<lparr>primaryContactId = contact_id c,
      emails = new_Set (List.map_filter email cs),
      phoneNumbers = [Undefined],
      secondaryContactIds = map contact_id (filter (\<lambda>r. contact_id r \<noteq> contact_id c) cs)\<rparr>"
  by (simp add: consolidate_def gathered_phoneNumbers)

section \<open>Running the sample requests\<close>

lemmas run_defs =
  post_identify_def identifyCustomer_def try_block_def existingContacts_def allLinkedContacts_def
  hasNewEmail_def hasNewPhone_def consolidate_def newCustomerView_def searchQuery_def
  getLinkedQuery_def insertQuery_def sql_eq_def strict_eq_def or_null_def phone_param_def
  truthy_string_def truthy_number_def toString_def digits.simps new_Set_def set_add_def
  pg_row_def js_get_def js_string_def nullable_def Let_def

lemma lorraine_db_reached:
  "post_identify no_faults 100 (Some ''lorraine@hillvalley.edu'') (Some 123456) empty_db =
    (lorraine_db, Status200 \<lparr>primaryContactId = 1,
        emails = [''lorraine@hillvalley.edu''], phoneNumbers = [Str ''123456''],
        secondaryContactIds = []\<rparr>)"
  by (simp add: run_defs empty_db_def lorraine_db_def lorraine_def)

lemma hill_valley_reached:
  "post_identify no_faults 200 (Some ''mcfly@hillvalley.edu'') (Some 123456) lorraine_db =
    (hill_valley, Status200 \<lparr>primaryContactId = 1,
        emails = [''lorraine@hillvalley.edu'', ''mcfly@hillvalley.edu''],
        phoneNumbers = [Undefined], secondaryContactIds = [2]\<rparr>)"
  by (simp add: run_defs lorraine_db_def hill_valley_def lorraine_def mcfly_def)

lemma two_clusters_reached:
  "fst (post_identify no_faults 300 (Some ''biff@hillvalley.edu'') (Some 717171)
     (fst (post_identify no_faults 200 (Some ''biffsucks@hillvalley.edu'') (Some 717171)
       (fst (post_identify no_faults 100 (Some ''george@hillvalley.edu'') (Some 919191) empty_db)))))
   = two_clusters"
  by (simp add: run_defs empty_db_def two_clusters_def george_def biff_def biff2_def)

section \<open>Bridging two clusters\<close>

text \<open>
  C1. A request that matches the older primary by email and the younger primary by phone
  should demote the younger one and re-link its secondaries. The function has no such
  step. On the table of two clusters (george; biff with one secondary) the request
  \<^verbatim>\<open>{george@hillvalley.edu, 717171}\<close> only adds a secondary of george: biff is
  still primary with no link, biff's secondary is still linked to biff, and the answer
  holds neither biff's emails nor biff's id. Its phone numbers are the single value
  \<^verbatim>\<open>undefined\<close>, as in every answer built from matched rows.
\<close>

theorem bridging_request_does_not_merge:
  "post_identify no_faults 400 (Some ''george@hillvalley.edu'') (Some 717171) two_clusters =
     (\<lparr>rows = [george, biff, biff2, george2], seq = 4\<rparr>,
      Status200 \<lparr>primaryContactId = 1, emails = [''george@hillvalley.edu''],
        phoneNumbers = [Undefined], secondaryContactIds = [4]\<rparr>) \<and>
   linkPrecedence biff = primary \<and> linkedId biff = None \<and> linkedId biff2 = Some 2"
  by (simp add: run_defs two_clusters_def george_def biff_def biff2_def george2_def)

section \<open>The forest is not preserved\<close>

text \<open>
  C2. After every call each secondary should be linked to a primary. On the table of the
  two sample rows, which is such a forest, the request
  \<^verbatim>\<open>{mcfly@hillvalley.edu, 999}\<close> matches the secondary only, and the new contact is
  linked to that secondary: the table is no forest any more.
\<close>

theorem secondary_linked_to_secondary:
  "forest (rows hill_valley) \<and>
   post_identify no_faults 300 (Some ''mcfly@hillvalley.edu'') (Some 999) hill_valley =
     (\<lparr>rows = [lorraine, mcfly, mcfly2], seq = 3\<rparr>,
      Status200 \<lparr>primaryContactId = 2, emails = [''mcfly@hillvalley.edu''],
        phoneNumbers = [Undefined], secondaryContactIds = [3]\<rparr>) \<and>
   \<not> forest [lorraine, mcfly, mcfly2]"
  by (simp add: run_defs hill_valley_def lorraine_def mcfly_def mcfly2_def forest_def)

section \<open>The working primary\<close>

text \<open>
  C3. The working primary should be the root of the matched contacts, a contact whose
  precedence is primary. The function takes the first match as it is. On the table of
  the two sample rows the request \<^verbatim>\<open>{mcfly@hillvalley.edu}\<close> matches the secondary
  only, nothing is written, and the answer names that secondary as the primary contact
  and leaves out the email of the primary it is linked to.
\<close>

theorem working_primary_is_a_secondary:
  "existingContacts hill_valley (Some ''mcfly@hillvalley.edu'') None = [mcfly] \<and>
   linkPrecedence mcfly = secondary \<and>
   post_identify no_faults 300 (Some ''mcfly@hillvalley.edu'') None hill_valley =
     (hill_valley,
      Status200 \<lparr>primaryContactId = 2, emails = [''mcfly@hillvalley.edu''],
        phoneNumbers = [Undefined], secondaryContactIds = []\<rparr>)"
  by (simp add: run_defs hill_valley_def lorraine_def mcfly_def)

section \<open>Invalid input\<close>

text \<open>
  C4. When both the email and the phone number are absent, the handler answers 400 (a
  client error) before \<^verbatim>\<open>identifyCustomer\<close> is called: no statement is sent and the
  database is as it was.
\<close>

theorem invalid_input_rejected:
  "post_identify f now None None d = (d, Status400)"
  by (simp add: post_identify_def truthy_string_def truthy_number_def)

text \<open>
  The guard is the handler's. \<^verbatim>\<open>identifyCustomer\<close> itself, which only the handler
  calls, skips the search when both fields are absent and inserts a primary contact with
  neither email nor phone.
\<close>

lemma identifyCustomer_without_guard:
  "identifyCustomer no_faults now None None d =
     (\<lparr>rows = rows d @
         [\<lparr>contact_id = Suc (seq d), phoneNumber = None, email = None, linkedId = None,
           linkPrecedence = primary, createdAt = now, updatedAt = now, deletedAt = None\<rparr>],
       seq = Suc (seq d)\<rparr>,
      Inr \<lparr>primaryContactId = Suc (seq d), emails = [], phoneNumbers = [],
        secondaryContactIds = []\<rparr>)"
  by (simp add: identifyCustomer_def try_block_def existingContacts_def truthy_string_def
      truthy_number_def insertQuery_unfold or_null_def phone_param_None newCustomerView_def)

section \<open>A known pair\<close>

text \<open>
  C5. A request whose email and phone are both known to the cluster it matches should
  write nothing. On the table of the two sample rows the request
  \<^verbatim>\<open>{mcfly@hillvalley.edu, 123456}\<close> is the very pair of contact 2. The first match is
  the primary, both contacts are gathered, the email is found, but the phone is compared
  with \<^verbatim>\<open>c.phoneNumber\<close>, which is \<^verbatim>\<open>undefined\<close> on every row: the phone counts
  as new and the pair is written again as contact 3.
\<close>

theorem known_pair_written_again:
  "email mcfly = Some ''mcfly@hillvalley.edu'' \<and> phoneNumber mcfly = Some ''123456'' \<and>
   existingContacts hill_valley (Some ''mcfly@hillvalley.edu'') (Some 123456) = [lorraine, mcfly] \<and>
   allLinkedContacts hill_valley lorraine = [lorraine, mcfly] \<and>
   post_identify no_faults 300 (Some ''mcfly@hillvalley.edu'') (Some 123456) hill_valley =
     (\<lparr>rows = [lorraine, mcfly, mcfly_again], seq = 3\<rparr>,
      Status200 \<lparr>primaryContactId = 1,
        emails = [''lorraine@hillvalley.edu'', ''mcfly@hillvalley.edu''],
        phoneNumbers = [Undefined], secondaryContactIds = [2, 3]\<rparr>)"
  by (simp add: run_defs hill_valley_def lorraine_def mcfly_def mcfly_again_def)

text \<open>
  The same holds of every matched request with a phone number other than 0: the phone
  always counts as new, and one secondary is added, linked to the first match.
\<close>

lemma nonzero_phone_always_appends:
  assumes m: "existingContacts d e (Some n) = c # cs" and nz: "n \<noteq> 0"
  shows "fst (post_identify no_faults now e (Some n) d) =
           \<lparr>rows = rows d @
               [\<lparr>contact_id = Suc (seq d), phoneNumber = Some (toString n), email = or_null e,
                 linkedId = Some (contact_id c), linkPrecedence = secondary, createdAt = now,
                 updatedAt = now, deletedAt = None\<rparr>],
             seq = Suc (seq d)\<rparr>"
proof -
  have acc: "truthy_string e \<or> truthy_number (Some n)"
    using nz by (simp add: truthy_number_def)
  have "hasNewEmail e (allLinkedContacts d c) \<or> hasNewPhone (Some n) (allLinkedContacts d c)"
    using nz by (simp add: hasNewPhone_iff truthy_number_def)
  from post_identify_new_info[OF acc m this, of now]
  show ?thesis by (simp add: insertQuery_unfold phone_param_Some)
qed

text \<open>
  Only a request without a phone number (or with the number 0) can be a pure read: when
  its email is the email of a gathered contact, the database is returned as it was, and
  a second identical call returns the same database and the same view.
\<close>

lemma known_email_is_pure_read:
  assumes acc: "truthy_string e"
    and np: "\<not> truthy_number p"
    and m: "existingContacts d e p = c # cs"
    and em: "\<exists>x\<in>set (allLinkedContacts d c). email x = e"
  shows "post_identify no_faults now e p d = (d, Status200 (consolidate c (allLinkedContacts d c))) \<and>
         post_identify no_faults now' e p (fst (post_identify no_faults now e p d)) =
           post_identify no_faults now e p d"
proof -
  have ne: "\<not> hasNewEmail e (allLinkedContacts d c)" using em by (auto simp: hasNewEmail_iff)
  have nph: "\<not> hasNewPhone p (allLinkedContacts d c)" using np by (simp add: hasNewPhone_iff)
  have call: "post_identify no_faults t e p d = (d, Status200 (consolidate c (allLinkedContacts d c)))" for t
    using acc try_block_known[OF m ne nph, of t]
    by (simp add: post_identify_accepted identifyCustomer_def)
  show ?thesis by (simp add: call)
qed

section \<open>A new customer\<close>

text \<open>
  C6. A request that matches nothing should create one primary contact holding the
  request's email and phone, and answer with exactly that contact's email and phone. With
  the phone number 0 the contact is stored with the phone \<^verbatim>\<open>"0"\<close>, since the string
  is truthy, but the answer has no phone number, since the number is not.
\<close>

theorem zero_phone_stored_but_not_returned:
  "post_identify no_faults 100 (Some ''doc@fluxkart.com'') (Some 0) empty_db =
     (\<lparr>rows = [doc], seq = 1\<rparr>,
      Status200 \<lparr>primaryContactId = 1, emails = [''doc@fluxkart.com''],
        phoneNumbers = [], secondaryContactIds = []\<rparr>) \<and>
   phoneNumber doc = Some ''0''"
  by (simp add: run_defs empty_db_def doc_def)

section \<open>The order of the answer\<close>

text \<open>
  C7. The answer should list the primary's email and phone first, then those of the
  secondaries by creation time, and the ids of the contacts that are not the primary.
  Two requests where it does not. On the table of the two sample rows,
  \<^verbatim>\<open>{lorraine@hillvalley.edu}\<close> matches the primary and writes nothing; the emails
  and the secondary id are as they should be, but the phone numbers are the single value
  \<^verbatim>\<open>undefined\<close> (\<^verbatim>\<open>[null]\<close> in the JSON), not the primary's phone. On the same
  table, \<^verbatim>\<open>{doc@fluxkart.com, 0}\<close> creates a primary whose phone \<^verbatim>\<open>"0"\<close> is missing
  from the answer.
\<close>

theorem answer_misses_primary_values:
  "post_identify no_faults 300 (Some ''lorraine@hillvalley.edu'') None hill_valley =
     (hill_valley,
      Status200 \<lparr>primaryContactId = 1,
        emails = [''lorraine@hillvalley.edu'', ''mcfly@hillvalley.edu''],
        phoneNumbers = [Undefined], secondaryContactIds = [2]\<rparr>) \<and>
   phoneNumber lorraine = Some ''123456'' \<and>
   post_identify no_faults 300 (Some ''doc@fluxkart.com'') (Some 0) hill_valley =
     (\<lparr>rows = [lorraine, mcfly, doc3], seq = 3\<rparr>,
      Status200 \<lparr>primaryContactId = 3, emails = [''doc@fluxkart.com''],
        phoneNumbers = [], secondaryContactIds = []\<rparr>) \<and>
   phoneNumber doc3 = Some ''0''"
  by (simp add: run_defs hill_valley_def lorraine_def mcfly_def doc3_def)

section \<open>The phone number as a string\<close>


section \<open>A failed call leaves the table as it was\<close>

text \<open>
  C9. When \<^verbatim>\<open>identifyCustomer\<close> throws (a statement of the transaction raised,
  \<^verbatim>\<open>COMMIT\<close> included), the committed rows are the rows before the call, and the
  error reaches the caller: the handler answers 500 with it. In the witness the row was
  inserted inside the transaction and \<^verbatim>\<open>COMMIT\<close> raised.
\<close>

theorem failure_rolls_back:
  assumes acc: "truthy_string e \<or> truthy_number p"
    and fail: "snd (identifyCustomer f now e p d) = Inl err"
  shows "rows (fst (identifyCustomer f now e p d)) = rows d \<and>
         post_identify f now e p d = (fst (identifyCustomer f now e p d), Status500 err) \<and>
         rows (fst (post_identify f now e p d)) = rows d"
proof -
  have r: "rows (fst (identifyCustomer f now e p d)) = rows d"
    using fail by (rule identifyCustomer_error_rows)
  have h: "post_identify f now e p d = (fst (identifyCustomer f now e p d), Status500 err)"
    using acc fail by (cases "identifyCustomer f now e p d") (simp add: post_identify_accepted)
  show ?thesis using r h by simp
qed

theorem failure_rolls_back_witness:
  "snd (identifyCustomer (\<lambda>st. st = Commit) 100 (Some ''lorraine@hillvalley.edu'') (Some 123456) empty_db)
     = Inl (DbError Commit) \<and>
   fst (try_block (\<lambda>st. st = Commit) 100 (Some ''lorraine@hillvalley.edu'') (Some 123456) empty_db)
     = \<lparr>rows = [lorraine], seq = 1\<rparr> \<and>
   post_identify (\<lambda>st. st = Commit) 100 (Some ''lorraine@hillvalley.edu'') (Some 123456) empty_db
     = (\<lparr>rows = [], seq = 1\<rparr>, Status500 (DbError Commit))"
proof -
  have t: "try_block (\<lambda>st. st = Commit) 100 (Some ''lorraine@hillvalley.edu'') (Some 123456) empty_db
      = (\<lparr>rows = [lorraine], seq = 1\<rparr>, Inl (DbError Commit))"
    by (simp add: try_block_def existingContacts_def searchQuery_def empty_db_def insertQuery_def Let_def
        lorraine_def or_null_def truthy_string_def phone_param_Some toString_def digits.simps)
  have i: "identifyCustomer (\<lambda>st. st = Commit) 100 (Some ''lorraine@hillvalley.edu'') (Some 123456) empty_db
      = (\<lparr>rows = [], seq = 1\<rparr>, Inl (DbError Commit))"
    unfolding identifyCustomer_def t by (simp add: empty_db_def)
  have acc: "truthy_string (Some ''lorraine@hillvalley.edu'') \<or> truthy_number (Some 123456)"
    by (simp add: truthy_string_def)
  have s: "snd (identifyCustomer (\<lambda>st. st = Commit) 100 (Some ''lorraine@hillvalley.edu'')
      (Some 123456) empty_db) = Inl (DbError Commit)"
    unfolding i by simp
  from failure_rolls_back[OF acc s]
  have h: "post_identify (\<lambda>st. st = Commit) 100 (Some ''lorraine@hillvalley.edu'') (Some 123456) empty_db
     = (\<lparr>rows = [], seq = 1\<rparr>, Status500 (DbError Commit))"
    unfolding i by simp
  from s t h show ?thesis by simp
qed

text \<open>
  The faults are not idle: a call whose connection, \<^verbatim>\<open>BEGIN\<close> or \<^verbatim>\<open>COMMIT\<close>
  raises throws, and a call in which nothing raises returns a view.
\<close>

lemma raised_statement_fails:
  "f Connect \<or> f Begin \<or> f Commit \<Longrightarrow> \<exists>err. snd (identifyCustomer f now e p d) = Inl err"
  by (auto simp: identifyCustomer_def try_block_def insertQuery_unfold Let_def
      split: prod.splits sum.splits list.splits)

lemma fault_free_call_answers:
  "\<exists>d' v. identifyCustomer no_faults now e p d = (d', Inr v)"
  by (auto simp: identifyCustomer_def try_block_def insertQuery_unfold Let_def
      split: prod.splits sum.splits list.splits)

section \<open>Rows are only ever added\<close>

text \<open>
  C10. Whatever the request, the state and the statements that raise, the rows present
  before a call of \<^verbatim>\<open>identifyCustomer\<close> (or of the handler) are the first rows after
  it, each one unchanged in every field, and at most one row was added: the function
  sends \<^verbatim>\<open>INSERT\<close> and never \<^verbatim>\<open>UPDATE\<close>.
\<close>

theorem existing_rows_untouched:
  "take (length (rows d)) (rows (fst (identifyCustomer f now e p d))) = rows d \<and>
   length (rows (fst (identifyCustomer f now e p d))) \<le> Suc (length (rows d)) \<and>
   take (length (rows d)) (rows (fst (post_identify f now e p d))) = rows d \<and>
   length (rows (fst (post_identify f now e p d))) \<le> Suc (length (rows d))"
proof -
  obtain new where n: "rows (fst (try_block f now e p d)) = rows d @ new" "length new \<le> 1"
    using try_block_rows by blast
  have i: "rows (fst (identifyCustomer f now e p d)) = rows d \<or>
        rows (fst (identifyCustomer f now e p d)) = rows d @ new"
    using n(1) by (auto simp: identifyCustomer_def split: prod.splits sum.splits)
  then have "rows (fst (post_identify f now e p d)) = rows d \<or>
        rows (fst (post_identify f now e p d)) = rows d @ new"
    by (auto simp: post_identify_def split: prod.splits sum.splits)
  with i show ?thesis using n(2) by auto
qed

section \<open>Further properties\<close>

text \<open>
  A request that matches nothing, with a phone number other than 0 and an email other
  than the empty string, creates exactly one contact: a primary with no link, holding the
  email and the phone of the request (\<open>None\<close> for an absent field), and the answer is that
  contact alone.
\<close>

lemma new_customer_created:
  assumes acc: "truthy_string e \<or> truthy_number p"
    and none: "existingContacts d e p = []"
    and email_ok: "e \<noteq> Some []" and phone_ok: "p \<noteq> Some 0"
  shows "post_identify no_faults now e p d =
           (\<lparr>rows = rows d @
               [\<lparr>contact_id = Suc (seq d), phoneNumber = map_option toString p, email = e,
                 linkedId = None, linkPrecedence = primary, createdAt = now, updatedAt = now,
                 deletedAt = None\<rparr>],
             seq = Suc (seq d)\<rparr>,
            Status200 \<lparr>primaryContactId = Suc (seq d),
              emails = (case e of None \<Rightarrow> [] | Some s \<Rightarrow> [s]),
              phoneNumbers = (case p of None \<Rightarrow> [] | Some n \<Rightarrow> [Str (toString n)]),
              secondaryContactIds = []\<rparr>)"
proof -
  have e: "or_null e = e" using email_ok
    by (cases e) (simp_all add: or_null_def truthy_string_def)
  have p: "phone_param p = map_option toString p"
    by (cases p) (simp_all add: phone_param_Some phone_param_None)
  show ?thesis
    using email_ok phone_ok
    by (simp add: post_identify_no_match[OF acc none] e p insertQuery_unfold newCustomerView_def
        split: option.splits)
qed

text \<open>
  When a contact was matched and no row was created after the time of the call, the
  emails and the secondary ids of the answer are built from the final state of the
  table: the first match, then the contacts linked to it in ascending order of creation,
  the one just added included; emails without repetition, in the order of their first
  occurrence. The phone numbers are the single value \<^verbatim>\<open>undefined\<close>.
\<close>

lemma consolidated_in_creation_order:
  assumes acc: "truthy_string e \<or> truthy_number p"
    and m: "existingContacts d e p = c # cs"
    and clock: "\<forall>r\<in>set (rows d). createdAt r \<le> now"
  shows "snd (post_identify no_faults now e p d) =
           Status200
             \<lparr>primaryContactId = contact_id c,
              emails = new_Set (List.map_filter email
                (c # getLinkedQuery (rows (fst (post_identify no_faults now e p d))) (contact_id c))),
              phoneNumbers = [Undefined],
              secondaryContactIds = map contact_id (filter (\<lambda>r. contact_id r \<noteq> contact_id c)
                (getLinkedQuery (rows (fst (post_identify no_faults now e p d))) (contact_id c)))\<rparr> \<and>
         sorted (map createdAt
           (getLinkedQuery (rows (fst (post_identify no_faults now e p d))) (contact_id c))) \<and>
         set (getLinkedQuery (rows (fst (post_identify no_faults now e p d))) (contact_id c)) =
           {r \<in> set (rows (fst (post_identify no_faults now e p d))).
              linkedId r = Some (contact_id c) \<and> deletedAt r = None}"
proof -
  have view: "snd (post_identify no_faults now e p d) =
           Status200
             \<lparr>primaryContactId = contact_id c,
              emails = new_Set (List.map_filter email
                (c # getLinkedQuery (rows (fst (post_identify no_faults now e p d))) (contact_id c))),
              phoneNumbers = [Undefined],
              secondaryContactIds = map contact_id (filter (\<lambda>r. contact_id r \<noteq> contact_id c)
                (getLinkedQuery (rows (fst (post_identify no_faults now e p d))) (contact_id c)))\<rparr>"
  proof (cases "hasNewEmail e (allLinkedContacts d c) \<or> hasNewPhone p (allLinkedContacts d c)")
    case True
    have l: "getLinkedQuery (rows d @ [\<lparr>contact_id = Suc (seq d), phoneNumber = phone_param p,
            email = or_null e, linkedId = Some (contact_id c), linkPrecedence = secondary,
            createdAt = now, updatedAt = now, deletedAt = None\<rparr>]) (contact_id c) =
          getLinkedQuery (rows d) (contact_id c) @ [\<lparr>contact_id = Suc (seq d), phoneNumber = phone_param p,
            email = or_null e, linkedId = Some (contact_id c), linkPrecedence = secondary,
            createdAt = now, updatedAt = now, deletedAt = None\<rparr>]"
      using clock by (simp add: getLinkedQuery_snoc)
    show ?thesis
      by (simp add: post_identify_new_info[OF acc m True] insertQuery_unfold l consolidate_unfold
          allLinkedContacts_def)
  next
    case False
    then show ?thesis
      by (simp add: post_identify_known[OF acc m] consolidate_unfold allLinkedContacts_def)
  qed
  show ?thesis
    by (intro conjI) (rule view, rule getLinkedQuery_sorted, rule getLinkedQuery_set)
qed

lemma consolidated_in_creation_order_example:
  "existingContacts hill_valley (Some ''lorraine@hillvalley.edu'') (Some 555) = [lorraine] \<and>
   fst (post_identify no_faults 300 (Some ''lorraine@hillvalley.edu'') (Some 555) hill_valley) =
     hill_valley_3 \<and>
   getLinkedQuery (rows hill_valley_3) (contact_id lorraine) = [mcfly, lorraine2] \<and>
   snd (post_identify no_faults 300 (Some ''lorraine@hillvalley.edu'') (Some 555) hill_valley) =
     Status200 \<lparr>primaryContactId = 1,
       emails = [''lorraine@hillvalley.edu'', ''mcfly@hillvalley.edu''],
       phoneNumbers = [Undefined], secondaryContactIds = [2, 3]\<rparr>"
proof -
  have acc: "truthy_string (Some ''lorraine@hillvalley.edu'') \<or> truthy_number (Some 555)"
    by (simp add: truthy_string_def)
  have m: "existingContacts hill_valley (Some ''lorraine@hillvalley.edu'') (Some 555) = lorraine # []"
    by (simp add: run_defs hill_valley_def lorraine_def mcfly_def)
  have clock: "\<forall>r\<in>set (rows hill_valley). createdAt r \<le> 300"
    by (simp add: hill_valley_def lorraine_def mcfly_def)
  have r: "fst (post_identify no_faults 300 (Some ''lorraine@hillvalley.edu'') (Some 555) hill_valley) =
     hill_valley_3"
    by (simp add: run_defs hill_valley_def lorraine_def mcfly_def hill_valley_3_def lorraine2_def)
  have l: "getLinkedQuery (rows hill_valley_3) (contact_id lorraine) = [mcfly, lorraine2]"
    by (simp add: run_defs hill_valley_3_def lorraine_def mcfly_def lorraine2_def)
  from consolidated_in_creation_order[OF acc m clock]
  have "snd (post_identify no_faults 300 (Some ''lorraine@hillvalley.edu'') (Some 555) hill_valley) =
     Status200 \<lparr>primaryContactId = 1,
       emails = [''lorraine@hillvalley.edu'', ''mcfly@hillvalley.edu''],
       phoneNumbers = [Undefined], secondaryContactIds = [2, 3]\<rparr>"
    unfolding r l
    by (simp add: lorraine_def mcfly_def lorraine2_def new_Set_def set_add_def)
  with m r l show ?thesis by simp
qed

end
